theory Spec2Isabelle
  imports Main
begin

text \<open>
  The two handlers of \<open>app.py\<close>: \<open>validate_mc_number\<close>, which checks a motor-carrier
  number against the FMCSA registry, and \<open>get_load_details\<close>, which looks a load up in
  \<open>loads.csv\<close>. Each handler is a function from its surroundings (the registry, the
  dataset file) and its argument to the response or the \<open>HTTPException\<close> it raises,
  together with the effects it performed.
\<close>

section \<open>Python strings\<close>

text \<open>
  Identifiers, reference numbers and messages are Python \<open>str\<close> values. They are modelled
  as \<open>string\<close>, the 8-bit characters standing for the code points U+0000 to U+00FF, and
  the operations on them follow Python on these code points:
  \<^item> \<open>str.upper\<close> maps a to z and the small letters U+00E0 to U+00FE (but the division
    sign U+00F7) to their capitals, and the sharp s U+00DF to \<open>SS\<close>;
  \<^item> \<open>str.isdigit\<close> accepts 0 to 9 and the superscripts U+00B2, U+00B3 and U+00B9;
  \<^item> \<open>str.strip\<close> removes the characters for which \<open>str.isspace\<close> holds: tab, line
    feed, vertical tab, form feed, carriage return, the separators U+001C to U+001F, the
    space, the next-line control U+0085 and the no-break space U+00A0.

  Two small letters have their capital outside these code points: the micro sign U+00B5
  (capital U+039C) and y with diaeresis U+00FF (capital U+0178). \<open>upper\<close> leaves them in
  place. Neither the letters nor their capitals are digits, whitespace or characters of
  \<open>MC-\<close>, so an identifier that holds one of them fails the digit check either way, and
  no identifier that passes the check is changed.
\<close>

definition small_letters :: string where
  "small_letters =
     ''abcdefghijklmnopqrstuvwxyz''
     @ [CHR 0xE0, CHR 0xE1, CHR 0xE2, CHR 0xE3, CHR 0xE4, CHR 0xE5, CHR 0xE6, CHR 0xE7,
        CHR 0xE8, CHR 0xE9, CHR 0xEA, CHR 0xEB, CHR 0xEC, CHR 0xED, CHR 0xEE, CHR 0xEF,
        CHR 0xF0, CHR 0xF1, CHR 0xF2, CHR 0xF3, CHR 0xF4, CHR 0xF5, CHR 0xF6,
        CHR 0xF8, CHR 0xF9, CHR 0xFA, CHR 0xFB, CHR 0xFC, CHR 0xFD, CHR 0xFE]"

definition capital_letters :: string where
  "capital_letters =
     ''ABCDEFGHIJKLMNOPQRSTUVWXYZ''
     @ [CHR 0xC0, CHR 0xC1, CHR 0xC2, CHR 0xC3, CHR 0xC4, CHR 0xC5, CHR 0xC6, CHR 0xC7,
        CHR 0xC8, CHR 0xC9, CHR 0xCA, CHR 0xCB, CHR 0xCC, CHR 0xCD, CHR 0xCE, CHR 0xCF,
        CHR 0xD0, CHR 0xD1, CHR 0xD2, CHR 0xD3, CHR 0xD4, CHR 0xD5, CHR 0xD6,
        CHR 0xD8, CHR 0xD9, CHR 0xDA, CHR 0xDB, CHR 0xDC, CHR 0xDD, CHR 0xDE]"

definition upper_char :: "char \<Rightarrow> string" where
  "upper_char c =
     (if c = CHR 0xDF then ''SS''
      else
        (case map_of (zip small_letters capital_letters) c of
           Some u \<Rightarrow> [u]
         | None \<Rightarrow> [c]))"

definition upper :: "string \<Rightarrow> string" where
  "upper s = concat (map upper_char s)"

definition isspace :: "char \<Rightarrow> bool" where
  "isspace c \<longleftrightarrow>
     c \<in> set [CHR 0x09, CHR 0x0A, CHR 0x0B, CHR 0x0C, CHR 0x0D,
               CHR 0x1C, CHR 0x1D, CHR 0x1E, CHR 0x1F, CHR 0x20,
               CHR 0x85, CHR 0xA0]"

definition strip :: "string \<Rightarrow> string" where
  "strip s = rev (dropWhile isspace (rev (dropWhile isspace s)))"

definition startswith :: "string \<Rightarrow> string \<Rightarrow> bool" where
  "startswith s p \<longleftrightarrow> take (length p) s = p"

text \<open>
  \<open>s.replace(old, new)\<close>: the occurrences of \<open>old\<close> are found from left to right and do
  not overlap; an empty \<open>old\<close> matches before every character and at the end.
\<close>

function replace :: "string \<Rightarrow> string \<Rightarrow> string \<Rightarrow> string" where
  "replace old new [] = (if old = [] then new else [])"
| "replace old new (c # cs) =
     (if old = [] then new @ c # replace old new cs
      else if startswith (c # cs) old then new @ replace old new (drop (length old) (c # cs))
      else c # replace old new cs)"
  by pat_completeness auto
termination
  by (relation "measure (\<lambda>(old, new, s). length s)") auto

definition isdigit_char :: "char \<Rightarrow> bool" where
  "isdigit_char c \<longleftrightarrow> c \<in> set (''0123456789'' @ [CHR 0xB2, CHR 0xB3, CHR 0xB9])"

text \<open>\<open>s.isdigit()\<close>: at least one character, and every character a digit.\<close>

definition isdigit :: "string \<Rightarrow> bool" where
  "isdigit s \<longleftrightarrow> s \<noteq> [] \<and> list_all isdigit_char s"

text \<open>\<open>str(n)\<close> for a Python int.\<close>

function str_nat :: "nat \<Rightarrow> string" where
  "str_nat n =
     (if n < 10 then [''0123456789'' ! n]
      else str_nat (n div 10) @ [''0123456789'' ! (n mod 10)])"
  by pat_completeness auto
termination
  by (relation "measure id") auto

declare str_nat.simps [simp del]

definition str_int :: "int \<Rightarrow> string" where
  "str_int i = (if i < 0 then CHR ''-'' # str_nat (nat (- i)) else str_nat (nat i))"

text \<open>\<open>sep.join(xs)\<close>.\<close>

fun join :: "string \<Rightarrow> string list \<Rightarrow> string" where
  "join sep [] = []"
| "join sep [x] = x"
| "join sep (x # y # ys) = x @ sep @ join sep (y # ys)"

section \<open>Exceptions and effects\<close>

record HTTPException =
  status_code :: int
  detail :: string

text \<open>
  Inside a handler an exception is either an \<open>HTTPException\<close> or some other Python
  exception, of which only the message \<open>str(e)\<close> is observed (by the log line of the
  catch-all clause).
\<close>

datatype py_exception = HTTPExc HTTPException | OtherExc string

text \<open>
  What a handler does besides returning: the outbound request (with its URL), the two
  accesses to the dataset file, and the line printed by the catch-all clause.
\<close>

datatype effect = HttpGet string | PathExists | ReadCsv | Print string

definition raise_http :: "int \<Rightarrow> string \<Rightarrow> py_exception + 'a" where
  "raise_http code msg = Inl (HTTPExc \<lparr>status_code = code, detail = msg\<rparr>)"

text \<open>
  The two \<open>except\<close> clauses that close each handler: an \<open>HTTPException\<close> is raised again
  unchanged, any other exception is printed and replaced by a generic 500.
\<close>

definition catch_all :: "(py_exception + 'a) \<times> effect list \<Rightarrow> (HTTPException + 'a) \<times> effect list" where
  "catch_all r =
     (case r of
        (Inr v, tr) \<Rightarrow> (Inr v, tr)
      | (Inl (HTTPExc h), tr) \<Rightarrow> (Inl h, tr)
      | (Inl (OtherExc msg), tr) \<Rightarrow>
          (Inl \<lparr>status_code = 500,
                detail = ''An unexpected error occurred while processing your request''\<rparr>,
           tr @ [Print (''Unexpected error: '' @ msg)]))"

section \<open>Decoded JSON\<close>

text \<open>
  The value that \<open>response.json()\<close> returns. An object is the list of the entries of the
  decoded \<open>dict\<close>. A number is a Python int or a float; a finite float \<open>Finite m e\<close> has
  the value \<open>m\<close> times two to the power \<open>e\<close>, and the decoder also accepts \<open>NaN\<close>,
  \<open>Infinity\<close> and \<open>-Infinity\<close>.
\<close>

datatype pyfloat = Finite int int | NotANumber | Infinity | NegInfinity

datatype json =
    JNull
  | JBool bool
  | JInt int
  | JFloat pyfloat
  | JStr string
  | JArr "json list"
  | JObj "(string \<times> json) list"

text \<open>Python truthiness, as tested by \<open>not x\<close> and \<open>if x\<close>.\<close>

fun truthy :: "json \<Rightarrow> bool" where
  "truthy JNull = False"
| "truthy (JBool b) = b"
| "truthy (JInt i) = (i \<noteq> 0)"
| "truthy (JFloat f) = (case f of Finite m e \<Rightarrow> m \<noteq> 0 | _ \<Rightarrow> True)"
| "truthy (JStr s) = (s \<noteq> [])"
| "truthy (JArr xs) = (xs \<noteq> [])"
| "truthy (JObj kvs) = (kvs \<noteq> [])"

fun type_name :: "json \<Rightarrow> string" where
  "type_name JNull = ''NoneType''"
| "type_name (JBool b) = ''bool''"
| "type_name (JInt i) = ''int''"
| "type_name (JFloat f) = ''float''"
| "type_name (JStr s) = ''str''"
| "type_name (JArr xs) = ''list''"
| "type_name (JObj kvs) = ''dict''"

text \<open>
  \<open>x.get(key, default)\<close>: defined on a \<open>dict\<close> only; on any other value the attribute
  lookup raises \<open>AttributeError\<close>.
\<close>

definition dict_get :: "(string \<times> json) list \<Rightarrow> string \<Rightarrow> json \<Rightarrow> json" where
  "dict_get kvs k d = (case map_of kvs k of None \<Rightarrow> d | Some v \<Rightarrow> v)"

fun py_get :: "json \<Rightarrow> string \<Rightarrow> json \<Rightarrow> py_exception + json" where
  "py_get (JObj kvs) k d = Inr (dict_get kvs k d)"
| "py_get j k d =
     Inl (OtherExc ([CHR 0x27] @ type_name j @ [CHR 0x27] @ '' object has no attribute ''
                    @ [CHR 0x27] @ ''get'' @ [CHR 0x27]))"

text \<open>
  \<open>str(x)\<close>, which is also what an f-string inserts. The text Python prints for a float,
  a list or a dict is supplied by the environment (\<open>repr\<close>).
\<close>

fun py_str :: "(json \<Rightarrow> string) \<Rightarrow> json \<Rightarrow> string" where
  "py_str repr JNull = ''None''"
| "py_str repr (JBool b) = (if b then ''True'' else ''False'')"
| "py_str repr (JInt i) = str_int i"
| "py_str repr (JStr s) = s"
| "py_str repr j = repr j"

section \<open>Carrier validation\<close>

text \<open>
  What \<open>requests.get(url, timeout=10)\<close> can do: raise \<open>Timeout\<close>, raise another
  \<open>RequestException\<close> (with its message), raise an exception outside that hierarchy, or
  return a response. Of a response the handler reads the status code and \<open>json()\<close>. In
  \<open>Response code body\<close> the body is what \<open>json()\<close> returns, and \<open>None\<close> stands for a
  body that \<open>json()\<close> rejects with \<open>ValueError\<close>. \<open>UndecodedResponse code msg\<close> is a
  response on which \<open>json()\<close> raises an exception that is no \<open>ValueError\<close>, with its
  message: \<open>RecursionError\<close> on a body nested too deeply, for instance.
\<close>

datatype get_outcome =
    Timeout
  | RequestException string
  | OtherException string
  | Response int "json option"
  | UndecodedResponse int string

text \<open>
  The surroundings of \<open>validate_mc_number\<close>: the module-level credential (what
  \<open>os.environ.get\<close> returned), the registry as a function from the requested URL to the
  outcome of the request, and Python's text for lists and dicts.
\<close>

record registry_env =
  FMCSA_API_KEY :: "string option"
  requests_get :: "string \<Rightarrow> get_outcome"
  repr :: "json \<Rightarrow> string"

definition FMCSA_BASE_URL :: string where
  "FMCSA_BASE_URL = ''https://mobile.fmcsa.dot.gov/qc/services/carriers/''"

record CarrierResponse =
  success :: bool
  data :: json

text \<open>The scripted dialogue of the response; \<open>name\<close> is the interpolated carrier name.\<close>

definition next_steps :: "string \<Rightarrow> json" where
  "next_steps name =
     JObj [
       (''1'', JStr (''Confirm you found the right carrier name. Ask user exactly this: ''
                     @ [CHR 0x27] @ name @ ''?'' @ [CHR 0x27]
                     @ ''. Then wait for user to respond.'')),
       (''2'', JObj [
          (''a'', JStr (''If user confirms: move on to finding available loads, MAKE SURE you do not give them load information until you have verified they work for the carrier ''
                        @ name @ ''.'')),
          (''b'', JStr ''It is possible that you may have transcribed the name incorrectly, so use your best judgement to decide if the name the caller gives is close enough to the carrier name you have. If so, you can consider it a match and move on to finding available loads.''),
          (''c'', JStr (''If user denies: first, you must ask the user to repeat the name of the carrier they work for ('I'm so''
                        @ ''rry, I didn't quite catch that. What's the name of the carrier you work for?'). Wait for the user to provide the name again and check if it matches the carrier name you have.'')),
          (''d'', JStr (''If you still cannot verify the carrier name, ask the user for their MC / DOT number ('I'm so''
                        @ ''rry, what's that MC number again?'). Wait for user to provide number again. Then search for the carrier again with new number the caller provides.''))])]"

text \<open>
  Lines 136 to 169 of the handler: the status, its reason and the response, from the
  values read in the carrier section.
\<close>

definition carrier_response :: "(json \<Rightarrow> string) \<Rightarrow> string \<Rightarrow> json \<Rightarrow> json \<Rightarrow> json \<Rightarrow> json \<Rightarrow> CarrierResponse" where
  "carrier_response rp clean_mc carrier_name dot_number allowed oos_date =
     (let is_authorized = (allowed = JStr ''Y'');
          status = (if is_authorized then ''Active'' else ''Inactive'');
          status_reason =
            (if truthy oos_date then JStr ''Out of Service''
             else if \<not> is_authorized then JStr ''Not Authorized to Operate''
             else JNull)
      in \<lparr>CarrierResponse.success = True,
          CarrierResponse.data =
            JObj [
              (''carrier'', JObj [
                 (''carrier_id'', JStr (py_str rp dot_number)),
                 (''status'', JStr status),
                 (''carrier_name'', carrier_name),
                 (''dot_number'', JStr (py_str rp dot_number)),
                 (''mc_number'', JStr clean_mc),
                 (''status_reason'', status_reason)]),
              (''transfer_contact'', JNull),
              (''next_steps'', next_steps (py_str rp carrier_name))]\<rparr>)"

text \<open>
  Lines 116 to 169 of the handler: from the decoded body to the response. Every
  \<open>get\<close> can raise, and the default of the lookup of \<open>legalName\<close> is itself a lookup.
\<close>

definition extract_carrier :: "(json \<Rightarrow> string) \<Rightarrow> string \<Rightarrow> json \<Rightarrow> py_exception + CarrierResponse" where
  "extract_carrier rp clean_mc body =
     (case py_get body ''content'' (JObj []) of
        Inl e \<Rightarrow> Inl e
      | Inr content0 \<Rightarrow>
          if \<not> truthy content0 then
            raise_http 404 (''No carrier data found for MC number: '' @ clean_mc)
          else
     (case py_get body ''content'' (JObj []) of
        Inl e \<Rightarrow> Inl e
      | Inr content \<Rightarrow>
     (case py_get content ''carrier'' (JObj []) of
        Inl e \<Rightarrow> Inl e
      | Inr carrier_data \<Rightarrow>
     (case py_get carrier_data ''dbaName'' (JStr []) of
        Inl e \<Rightarrow> Inl e
      | Inr dba_name \<Rightarrow>
     (case py_get carrier_data ''legalName'' dba_name of
        Inl e \<Rightarrow> Inl e
      | Inr carrier_name \<Rightarrow>
     (case py_get carrier_data ''dotNumber'' JNull of
        Inl e \<Rightarrow> Inl e
      | Inr dot_number \<Rightarrow>
          if \<not> truthy carrier_name \<or> \<not> truthy dot_number then
            raise_http 502 ''Incomplete carrier data received from FMCSA API''
          else
     (case py_get carrier_data ''allowedToOperate'' JNull of
        Inl e \<Rightarrow> Inl e
      | Inr allowed \<Rightarrow>
     (case py_get carrier_data ''oosDate'' JNull of
        Inl e \<Rightarrow> Inl e
      | Inr oos_date \<Rightarrow>
          Inr (carrier_response rp clean_mc carrier_name dot_number allowed oos_date)))))))))"

text \<open>
  Lines 93 to 115: the mapping of the registry's status code, and the decoding. The
  outcome of \<open>json()\<close> is the decoded body (\<open>Inr (Some b)\<close>), a \<open>ValueError\<close>, which the
  handler catches (\<open>Inr None\<close>), or another exception, which it does not (\<open>Inl msg\<close>).
\<close>

definition handle_response :: "(json \<Rightarrow> string) \<Rightarrow> string \<Rightarrow> int \<Rightarrow> string + json option \<Rightarrow> py_exception + CarrierResponse" where
  "handle_response rp clean_mc code decoded =
     (if code = 404 then
        raise_http 404 (''Carrier with MC number '' @ clean_mc @ '' not found'')
      else if code = 401 then
        raise_http 502 ''Invalid FMCSA API key''
      else if code \<noteq> 200 then
        raise_http 502 (''FMCSA API error: '' @ str_int code)
      else
        (case decoded of
           Inl msg \<Rightarrow> Inl (OtherExc msg)
         | Inr None \<Rightarrow> raise_http 502 ''Invalid JSON response from FMCSA API''
         | Inr (Some b) \<Rightarrow> extract_carrier rp clean_mc b))"

text \<open>Line 67.\<close>

definition clean :: "string \<Rightarrow> string" where
  "clean mc = strip (replace ''MC-'' [] (upper mc))"

definition request_url :: "string \<Rightarrow> string \<Rightarrow> string" where
  "request_url key clean_mc = FMCSA_BASE_URL @ clean_mc @ ''?webKey='' @ key"

text \<open>
  The handler. The result is the response or the \<open>HTTPException\<close> that leaves the
  function, together with the effects in the order in which they happened.
\<close>

definition validate_mc_number :: "registry_env \<Rightarrow> string \<Rightarrow> (HTTPException + CarrierResponse) \<times> effect list" where
  "validate_mc_number env mc =
     (case FMCSA_API_KEY env of
        None \<Rightarrow> (Inl \<lparr>status_code = 500, detail = ''FMCSA API key not configured''\<rparr>, [])
      | Some key \<Rightarrow>
          if key = [] then
            (Inl \<lparr>status_code = 500, detail = ''FMCSA API key not configured''\<rparr>, [])
          else if mc = [] then
            (Inl \<lparr>status_code = 400, detail = ''MC number is required''\<rparr>, [])
          else
            let clean_mc = clean mc in
            if \<not> isdigit clean_mc then
              (Inl \<lparr>status_code = 400,
                    detail = ''Invalid MC number format. Must contain only digits after removing 'MC-' prefix''\<rparr>,
               [])
            else
              let url = request_url key clean_mc in
              catch_all
                (case requests_get env url of
                   Timeout \<Rightarrow> raise_http 504 ''FMCSA API request timed out''
                 | RequestException msg \<Rightarrow>
                     raise_http 502 (''Error connecting to FMCSA API: '' @ msg)
                 | OtherException msg \<Rightarrow> Inl (OtherExc msg)
                 | Response code body \<Rightarrow>
                     handle_response (repr env) clean_mc code (Inr body)
                 | UndecodedResponse code msg \<Rightarrow>
                     handle_response (repr env) clean_mc code (Inl msg),
                 [HttpGet url]))"

section \<open>Load lookup\<close>

text \<open>
  A cell of the data frame that \<open>pd.read_csv\<close> builds: the missing value (for which
  \<open>pd.isna\<close> holds), a string, an integer, a boolean or a floating-point number. The
  floating-point numbers are a type parameter; what Python does with them is supplied by
  the environment.
\<close>

datatype 'f cell = CNaN | CStr string | CInt int | CBool bool | CFloat 'f

text \<open>
  What \<open>pd.read_csv(csv_path)\<close> can do: raise \<open>EmptyDataError\<close>, raise \<open>ParserError\<close>,
  raise another exception (with its message), or return a data frame, given by its column
  names and its rows.
\<close>

datatype 'f read_outcome =
    EmptyDataError
  | ParserError
  | ReadFailure string
  | DataFrame "string list" "'f cell list list"

record 'f load_env =
  csv_exists :: bool
  read_csv :: "'f read_outcome"
  float_repr :: "'f \<Rightarrow> string"
  float_of_int :: "int \<Rightarrow> 'f option"
  float_of_str :: "string \<Rightarrow> string + 'f"
  float_nan :: "'f"

record 'f LoadDetails =
  reference_number :: string
  origin :: string
  destination :: string
  equipment_type :: string
  rate :: "'f"
  commodity :: string

record 'f LoadResponse =
  success :: bool
  data :: "'f LoadDetails option"
  error :: "string option"

text \<open>
  \<open>str(x)\<close> and \<open>float(x)\<close> on a cell. \<open>float\<close> of a string can raise \<open>ValueError\<close>
  (\<open>float_of_str\<close> gives its message), and \<open>float\<close> of an integer too large for a float
  raises \<open>OverflowError\<close> (\<open>float_of_int\<close> gives \<open>None\<close>).
\<close>

datatype 'f float_result = FloatValue 'f | FloatValueError string | FloatOverflowError string

definition cell_str :: "'f load_env \<Rightarrow> 'f cell \<Rightarrow> string" where
  "cell_str env c =
     (case c of
        CNaN \<Rightarrow> ''nan''
      | CStr s \<Rightarrow> s
      | CInt i \<Rightarrow> str_int i
      | CBool b \<Rightarrow> (if b then ''True'' else ''False'')
      | CFloat f \<Rightarrow> float_repr env f)"

definition int_float :: "'f load_env \<Rightarrow> int \<Rightarrow> 'f float_result" where
  "int_float env i =
     (case float_of_int env i of
        None \<Rightarrow> FloatOverflowError ''int too large to convert to float''
      | Some f \<Rightarrow> FloatValue f)"

definition cell_float :: "'f load_env \<Rightarrow> 'f cell \<Rightarrow> 'f float_result" where
  "cell_float env c =
     (case c of
        CNaN \<Rightarrow> FloatValue (float_nan env)
      | CStr s \<Rightarrow>
          (case float_of_str env s of
             Inl msg \<Rightarrow> FloatValueError msg
           | Inr f \<Rightarrow> FloatValue f)
      | CInt i \<Rightarrow> int_float env i
      | CBool b \<Rightarrow> int_float env (if b then 1 else 0)
      | CFloat f \<Rightarrow> FloatValue f)"

definition required_fields :: "string list" where
  "required_fields =
     [''reference_number'', ''origin'', ''destination'', ''equipment_type'', ''rate'', ''commodity'']"

text \<open>\<open>row.to_dict()\<close>: the cells of a row under the column names.\<close>

definition to_dict :: "string list \<Rightarrow> 'f cell list \<Rightarrow> (string \<rightharpoonup> 'f cell)" where
  "to_dict cols row = map_of (zip cols row)"

text \<open>\<open>df[df['reference_number'] == reference_number]\<close>: the rows whose cell is that string.\<close>

definition matching_rows :: "string list \<Rightarrow> 'f cell list list \<Rightarrow> string \<Rightarrow> 'f cell list list" where
  "matching_rows cols rows refnum =
     filter (\<lambda>row. to_dict cols row ''reference_number'' = Some (CStr refnum)) rows"

definition missing_fields :: "(string \<rightharpoonup> 'f cell) \<Rightarrow> string list" where
  "missing_fields load_data =
     filter (\<lambda>field. case load_data field of None \<Rightarrow> True | Some c \<Rightarrow> c = CNaN) required_fields"

text \<open>\<open>load_data[field]\<close>, which raises \<open>KeyError\<close> on a missing key.\<close>

definition getitem :: "(string \<rightharpoonup> 'f cell) \<Rightarrow> string \<Rightarrow> py_exception + 'f cell" where
  "getitem load_data k =
     (case load_data k of
        None \<Rightarrow> Inl (OtherExc ([CHR 0x27] @ k @ [CHR 0x27]))
      | Some c \<Rightarrow> Inr c)"

text \<open>
  Lines 225 to 258: from the first matching row to the response. The inner \<open>except\<close>
  clause catches \<open>ValueError\<close> and \<open>TypeError\<close>; an \<open>OverflowError\<close> passes it and
  reaches the catch-all clause.
\<close>

definition build_response :: "'f load_env \<Rightarrow> (string \<rightharpoonup> 'f cell) \<Rightarrow> py_exception + 'f LoadResponse" where
  "build_response env load_data =
     (if missing_fields load_data \<noteq> [] then
        raise_http 500 (''Missing required fields in load data: ''
                        @ join '', '' (missing_fields load_data))
      else
     (case getitem load_data ''reference_number'' of Inl e \<Rightarrow> Inl e | Inr c_ref \<Rightarrow>
     (case getitem load_data ''origin'' of Inl e \<Rightarrow> Inl e | Inr c_origin \<Rightarrow>
     (case getitem load_data ''destination'' of Inl e \<Rightarrow> Inl e | Inr c_destination \<Rightarrow>
     (case getitem load_data ''equipment_type'' of Inl e \<Rightarrow> Inl e | Inr c_equipment \<Rightarrow>
     (case getitem load_data ''rate'' of Inl e \<Rightarrow> Inl e | Inr c_rate \<Rightarrow>
     (case cell_float env c_rate of
        FloatValueError msg \<Rightarrow> raise_http 500 (''Error processing load data: '' @ msg)
      | FloatOverflowError msg \<Rightarrow> Inl (OtherExc msg)
      | FloatValue r \<Rightarrow>
     (case getitem load_data ''commodity'' of Inl e \<Rightarrow> Inl e | Inr c_commodity \<Rightarrow>
        Inr \<lparr>LoadResponse.success = True,
             LoadResponse.data =
               Some \<lparr>reference_number = cell_str env c_ref,
                     origin = cell_str env c_origin,
                     destination = cell_str env c_destination,
                     equipment_type = cell_str env c_equipment,
                     rate = r,
                     commodity = cell_str env c_commodity\<rparr>,
             LoadResponse.error = None\<rparr>))))))))"

text \<open>Lines 209 to 223, on the data frame that was read.\<close>

definition find_load :: "'f load_env \<Rightarrow> string list \<Rightarrow> 'f cell list list \<Rightarrow> string \<Rightarrow> py_exception + 'f LoadResponse" where
  "find_load env cols rows refnum =
     (if \<not> startswith refnum ''LOAD'' then
        raise_http 400 (''Invalid reference number format. Must start with 'LOAD'' @ [CHR 0x27])
      else if ''reference_number'' \<notin> set cols then
        Inl (OtherExc ([CHR 0x27] @ ''reference_number'' @ [CHR 0x27]))
      else
        (case matching_rows cols rows refnum of
           [] \<Rightarrow> raise_http 404 (''Load not found: '' @ refnum)
         | row # rest \<Rightarrow> build_response env (to_dict cols row)))"

text \<open>
  The handler: the file is looked for, then read, and only then is the reference number
  examined.
\<close>

definition get_load_details :: "'f load_env \<Rightarrow> string \<Rightarrow> (HTTPException + 'f LoadResponse) \<times> effect list" where
  "get_load_details env refnum =
     catch_all
       (if \<not> csv_exists env then
          (raise_http 503 ''Load data file not available'', [PathExists])
        else
          (case read_csv env of
             EmptyDataError \<Rightarrow> raise_http 503 ''Load data file is empty''
           | ParserError \<Rightarrow> raise_http 503 ''Error parsing load data file''
           | ReadFailure msg \<Rightarrow> Inl (OtherExc msg)
           | DataFrame cols rows \<Rightarrow> find_load env cols rows refnum,
           [PathExists, ReadCsv]))"

section \<open>The vocabulary of the properties\<close>

text \<open>
  The outcome of the outbound request that \<open>validate_mc_number env mc\<close> makes: \<open>None\<close>
  when the credential is missing or the identifier is refused, so that no request is made.
\<close>

definition registry_outcome :: "registry_env \<Rightarrow> string \<Rightarrow> get_outcome option" where
  "registry_outcome env mc =
     (case FMCSA_API_KEY env of
        None \<Rightarrow> None
      | Some key \<Rightarrow>
          if key = [] then None
          else if mc = [] then None
          else if isdigit (clean mc) then Some (requests_get env (request_url key (clean mc)))
          else None)"

text \<open>The status code of a response, whether or not its body decodes.\<close>

definition response_status :: "get_outcome \<Rightarrow> int option" where
  "response_status out =
     (case out of
        Response code body \<Rightarrow> Some code
      | UndecodedResponse code msg \<Rightarrow> Some code
      | _ \<Rightarrow> None)"


text \<open>The decoded body of the registry's answer, when the answer has status 200 and decodes.\<close>

definition registry_body :: "registry_env \<Rightarrow> string \<Rightarrow> json option" where
  "registry_body env mc =
     (case registry_outcome env mc of
        Some (Response code body) \<Rightarrow> if code = 200 then body else None
      | _ \<Rightarrow> None)"

text \<open>The carrier section of a body shaped as \<open>{content: {carrier: {...}}}\<close>.\<close>

definition content_carrier :: "json \<Rightarrow> (string \<times> json) list option" where
  "content_carrier body =
     (case body of
        JObj b \<Rightarrow>
          (case map_of b ''content'' of
             Some (JObj c) \<Rightarrow>
               (case map_of c ''carrier'' of
                  Some (JObj carrier) \<Rightarrow> Some carrier
                | _ \<Rightarrow> None)
           | _ \<Rightarrow> None)
      | _ \<Rightarrow> None)"

text \<open>A field of the \<open>carrier\<close> record of a response.\<close>

definition carrier_field :: "CarrierResponse \<Rightarrow> string \<Rightarrow> json option" where
  "carrier_field r k =
     (case CarrierResponse.data r of
        JObj d \<Rightarrow>
          (case map_of d ''carrier'' of
             Some (JObj c) \<Rightarrow> map_of c k
           | _ \<Rightarrow> None)
      | _ \<Rightarrow> None)"

section \<open>Sample environments\<close>

text \<open>
  A service with the credential \<open>key\<close> whose registry answers every request with
  \<open>out\<close>, and a registry body with one carrier section.
\<close>

definition registry_answering :: "get_outcome \<Rightarrow> registry_env" where
  "registry_answering out =
     \<lparr>FMCSA_API_KEY = Some ''key'', requests_get = (\<lambda>url. out), repr = (\<lambda>j. [])\<rparr>"

definition body_with_carrier :: "(string \<times> json) list \<Rightarrow> json" where
  "body_with_carrier carrier = JObj [(''content'', JObj [(''carrier'', JObj carrier)])]"

text \<open>
  A service whose dataset file is in the state given by \<open>present\<close> and \<open>outcome\<close>. In
  the samples the floating-point numbers are whole numbers, every integer converts to one
  and no string does.
\<close>

definition dataset_in_state :: "bool \<Rightarrow> int read_outcome \<Rightarrow> int load_env" where
  "dataset_in_state present outcome =
     \<lparr>csv_exists = present,
      read_csv = outcome,
      float_repr = str_int,
      float_of_int = (\<lambda>i. Some i),
      float_of_str = (\<lambda>s. Inl (''could not convert string to float: '' @ [CHR 0x27] @ s @ [CHR 0x27])),
      float_nan = 0\<rparr>"

definition sample_columns :: "string list" where
  "sample_columns =
     [''reference_number'', ''origin'', ''destination'', ''equipment_type'', ''rate'', ''commodity'']"

definition sample_row :: "string \<Rightarrow> int cell \<Rightarrow> int cell list" where
  "sample_row refnum rate_cell =
     [CStr refnum, CStr ''Dallas'', CStr ''Denver'', CStr ''Flatbed'', rate_cell, CStr ''Steel'']"

section \<open>Basic facts about the handlers\<close>

lemma catch_all_http [simp]:
  "catch_all (raise_http code msg, tr) = (Inl \<lparr>status_code = code, detail = msg\<rparr>, tr)"
  by (simp add: catch_all_def raise_http_def)

lemma catch_all_Inr [simp]: "catch_all (Inr v, tr) = (Inr v, tr)"
  by (simp add: catch_all_def)

lemma catch_all_other [simp]:
  "catch_all (Inl (OtherExc msg), tr) =
     (Inl \<lparr>status_code = 500,
           detail = ''An unexpected error occurred while processing your request''\<rparr>,
      tr @ [Print (''Unexpected error: '' @ msg)])"
  by (simp add: catch_all_def)

text \<open>Once the credential and the identifier have passed the checks, the request is made.\<close>

lemma validate_request:
  assumes "FMCSA_API_KEY env = Some key" "key \<noteq> []" "mc \<noteq> []" "isdigit (clean mc)"
  shows "validate_mc_number env mc =
           catch_all
             (case requests_get env (request_url key (clean mc)) of
                Timeout \<Rightarrow> raise_http 504 ''FMCSA API request timed out''
              | RequestException msg \<Rightarrow> raise_http 502 (''Error connecting to FMCSA API: '' @ msg)
              | OtherException msg \<Rightarrow> Inl (OtherExc msg)
              | Response code body \<Rightarrow> handle_response (repr env) (clean mc) code (Inr body)
              | UndecodedResponse code msg \<Rightarrow>
                  handle_response (repr env) (clean mc) code (Inl msg),
              [HttpGet (request_url key (clean mc))])"
  using assms by (simp add: validate_mc_number_def Let_def)

lemma registry_outcome_SomeD:
  assumes "registry_outcome env mc = Some out"
  shows "\<exists>key. FMCSA_API_KEY env = Some key \<and> key \<noteq> [] \<and> mc \<noteq> [] \<and> isdigit (clean mc)
           \<and> requests_get env (request_url key (clean mc)) = out"
  using assms by (auto simp: registry_outcome_def split: option.splits if_splits)

text \<open>The handler on a decoded body: without a content, and with a carrier section.\<close>

lemma content_carrier_SomeD:
  assumes "content_carrier body = Some carrier"
  shows "\<exists>b c. body = JObj b \<and> map_of b ''content'' = Some (JObj c) \<and> c \<noteq> []
           \<and> map_of c ''carrier'' = Some (JObj carrier)"
  using assms
  by (auto simp: content_carrier_def split: json.splits option.splits)

lemma extract_carrier_no_content:
  assumes "\<not> truthy (dict_get b ''content'' (JObj []))"
  shows "extract_carrier rp c (JObj b) =
           raise_http 404 (''No carrier data found for MC number: '' @ c)"
  using assms by (simp add: extract_carrier_def)

lemma extract_carrier_section:
  assumes "content_carrier body = Some carrier"
  shows "extract_carrier rp c body =
           (if \<not> truthy (dict_get carrier ''legalName'' (dict_get carrier ''dbaName'' (JStr [])))
               \<or> \<not> truthy (dict_get carrier ''dotNumber'' JNull)
            then raise_http 502 ''Incomplete carrier data received from FMCSA API''
            else Inr (carrier_response rp c
                        (dict_get carrier ''legalName'' (dict_get carrier ''dbaName'' (JStr [])))
                        (dict_get carrier ''dotNumber'' JNull)
                        (dict_get carrier ''allowedToOperate'' JNull)
                        (dict_get carrier ''oosDate'' JNull)))"
proof -
  from content_carrier_SomeD [OF assms] obtain b ct where
    b: "body = JObj b" and ct: "map_of b ''content'' = Some (JObj ct)" "ct \<noteq> []"
    and cr: "map_of ct ''carrier'' = Some (JObj carrier)"
    by blast
  have 1: "dict_get b ''content'' (JObj []) = JObj ct"
    using ct by (simp add: dict_get_def)
  have 2: "dict_get ct ''carrier'' (JObj []) = JObj carrier"
    using cr by (simp add: dict_get_def)
  show ?thesis
    unfolding extract_carrier_def b
    by (simp add: 1 2 ct)
qed

lemma extract_carrier_InrD:
  assumes "extract_carrier rp c body = Inr r"
  shows "\<exists>carrier. content_carrier body = Some carrier"
proof -
  from assms obtain b where b: "body = JObj b"
    by (cases body) (simp_all add: extract_carrier_def)
  from assms b have t: "truthy (dict_get b ''content'' (JObj []))"
    by (auto simp: extract_carrier_def raise_http_def split: if_splits)
  from assms b t obtain ct where ct: "dict_get b ''content'' (JObj []) = JObj ct"
    by (cases "dict_get b ''content'' (JObj [])") (simp_all add: extract_carrier_def)
  from assms b t ct obtain carrier where cr: "dict_get ct ''carrier'' (JObj []) = JObj carrier"
    by (cases "dict_get ct ''carrier'' (JObj [])") (simp_all add: extract_carrier_def)
  from t ct have ne: "ct \<noteq> []" by simp
  have mb: "map_of b ''content'' = Some (JObj ct)"
    using ct ne by (auto simp: dict_get_def split: option.splits)
  have "map_of ct ''carrier'' = Some (JObj carrier)"
  proof (cases "map_of ct ''carrier''")
    case None
    with cr have "carrier = []" by (simp add: dict_get_def)
    with assms b t ct cr show ?thesis
      by (simp add: extract_carrier_def dict_get_def raise_http_def)
  next
    case (Some v)
    with cr show ?thesis by (simp add: dict_get_def)
  qed
  with mb b show ?thesis
    by (simp add: content_carrier_def)
qed

section \<open>Carrier validation: the format check\<close>

lemma snd_catch_all:
  "\<exists>rest. snd (catch_all (x, [HttpGet u])) = HttpGet u # rest"
  by (auto simp: catch_all_def split: sum.splits py_exception.splits)

lemma clean_example: "clean ''MC-123456'' = ''123456''"
  by (simp add: clean_def upper_def upper_char_def small_letters_def capital_letters_def
      strip_def isspace_def startswith_def)

lemma isdigit_example: "isdigit ''123456''"
  by (simp add: isdigit_def isdigit_char_def)




section \<open>Carrier validation: the outcome of the request\<close>

lemma validate_outcome:
  assumes "registry_outcome env mc = Some out"
  shows "validate_mc_number env mc =
           catch_all
             (case out of
                Timeout \<Rightarrow> raise_http 504 ''FMCSA API request timed out''
              | RequestException msg \<Rightarrow> raise_http 502 (''Error connecting to FMCSA API: '' @ msg)
              | OtherException msg \<Rightarrow> Inl (OtherExc msg)
              | Response code body \<Rightarrow> handle_response (repr env) (clean mc) code (Inr body)
              | UndecodedResponse code msg \<Rightarrow>
                  handle_response (repr env) (clean mc) code (Inl msg),
              [HttpGet (request_url (the (FMCSA_API_KEY env)) (clean mc))])"
proof -
  from registry_outcome_SomeD [OF assms] obtain key where
    k: "FMCSA_API_KEY env = Some key" "key \<noteq> []" "mc \<noteq> []" "isdigit (clean mc)"
    and o: "requests_get env (request_url key (clean mc)) = out"
    by blast
  show ?thesis
    by (simp add: validate_request [OF k] o k(1))
qed

lemma registry_body_SomeD:
  assumes "registry_body env mc = Some body"
  shows "registry_outcome env mc = Some (Response 200 (Some body))"
  using assms
  by (auto simp: registry_body_def split: option.splits get_outcome.splits if_splits)

lemma validate_body:
  assumes "registry_body env mc = Some body"
  shows "validate_mc_number env mc =
           catch_all (extract_carrier (repr env) (clean mc) body,
                      [HttpGet (request_url (the (FMCSA_API_KEY env)) (clean mc))])"
  by (simp add: validate_outcome [OF registry_body_SomeD [OF assms]] handle_response_def)

lemma registry_outcome_example:
  "registry_outcome (registry_answering out) ''MC-123456'' = Some out"
  by (simp add: registry_outcome_def registry_answering_def clean_example isdigit_example)

lemma str_int_503: "str_int 503 = ''503''"
  by code_simp

text \<open>
  C6, as stated, fails in its last part. Decoding a body can fail with an exception that
  is no \<open>ValueError\<close> (\<open>RecursionError\<close> on a body nested too deeply); the handler
  catches \<open>ValueError\<close> only, so such a body is answered with the generic 500 and not
  with 502.
\<close>

theorem undecodable_body_counterexample:
  "validate_mc_number
     (registry_answering (UndecodedResponse 200 ''maximum recursion depth exceeded''))
     ''MC-123456'' =
   (Inl \<lparr>status_code = 500,
         detail = ''An unexpected error occurred while processing your request''\<rparr>,
    [HttpGet ''https://mobile.fmcsa.dot.gov/qc/services/carriers/123456?webKey=key'',
     Print ''Unexpected error: maximum recursion depth exceeded''])"
  unfolding validate_outcome [OF registry_outcome_example]
  by (simp add: handle_response_def registry_answering_def request_url_def FMCSA_BASE_URL_def
      clean_example)

text \<open>
  C6, amended. Whatever the outbound request does, the handler maps it as follows: a
  timeout gives status 504; another \<open>RequestException\<close> gives 502 with the cause in the
  message; an answer with status 404 gives 404 with the normalized identifier in the
  message; 401 gives 502 (invalid credential); any other status but 200 gives 502 with the
  status in the message; and an answer with status 200 whose body \<open>json()\<close> rejects
  with \<open>ValueError\<close> gives 502.
\<close>

theorem registry_outcome_mapping:
  assumes "registry_outcome env mc = Some out"
  shows "(out = Timeout \<longrightarrow>
            fst (validate_mc_number env mc) =
              Inl \<lparr>status_code = 504, detail = ''FMCSA API request timed out''\<rparr>)
       \<and> (\<forall>cause. out = RequestException cause \<longrightarrow>
            fst (validate_mc_number env mc) =
              Inl \<lparr>status_code = 502, detail = ''Error connecting to FMCSA API: '' @ cause\<rparr>)
       \<and> (response_status out = Some 404 \<longrightarrow>
            fst (validate_mc_number env mc) =
              Inl \<lparr>status_code = 404,
                   detail = ''Carrier with MC number '' @ clean mc @ '' not found''\<rparr>)
       \<and> (response_status out = Some 401 \<longrightarrow>
            fst (validate_mc_number env mc) =
              Inl \<lparr>status_code = 502, detail = ''Invalid FMCSA API key''\<rparr>)
       \<and> (\<forall>code. response_status out = Some code \<and> code \<noteq> 404 \<and> code \<noteq> 401 \<and> code \<noteq> 200 \<longrightarrow>
            fst (validate_mc_number env mc) =
              Inl \<lparr>status_code = 502, detail = ''FMCSA API error: '' @ str_int code\<rparr>)
       \<and> (out = Response 200 None \<longrightarrow>
            fst (validate_mc_number env mc) =
              Inl \<lparr>status_code = 502, detail = ''Invalid JSON response from FMCSA API''\<rparr>)"
  by (cases out)
     (simp_all add: validate_outcome [OF assms] handle_response_def response_status_def)

theorem registry_outcome_mapping_witness:
  "fst (validate_mc_number (registry_answering Timeout) ''MC-123456'') =
     Inl \<lparr>status_code = 504, detail = ''FMCSA API request timed out''\<rparr>
   \<and> fst (validate_mc_number (registry_answering (RequestException ''refused'')) ''MC-123456'') =
     Inl \<lparr>status_code = 502, detail = ''Error connecting to FMCSA API: refused''\<rparr>
   \<and> fst (validate_mc_number (registry_answering (Response 404 None)) ''MC-123456'') =
     Inl \<lparr>status_code = 404, detail = ''Carrier with MC number 123456 not found''\<rparr>
   \<and> fst (validate_mc_number (registry_answering (Response 401 None)) ''MC-123456'') =
     Inl \<lparr>status_code = 502, detail = ''Invalid FMCSA API key''\<rparr>
   \<and> fst (validate_mc_number (registry_answering (Response 503 None)) ''MC-123456'') =
     Inl \<lparr>status_code = 502, detail = ''FMCSA API error: 503''\<rparr>
   \<and> fst (validate_mc_number (registry_answering (Response 200 None)) ''MC-123456'') =
     Inl \<lparr>status_code = 502, detail = ''Invalid JSON response from FMCSA API''\<rparr>
   \<and> fst (validate_mc_number (registry_answering (UndecodedResponse 404 ''too deep''))
          ''MC-123456'') =
     Inl \<lparr>status_code = 404, detail = ''Carrier with MC number 123456 not found''\<rparr>"
  using registry_outcome_mapping [OF registry_outcome_example [of Timeout]]
    registry_outcome_mapping [OF registry_outcome_example [of "RequestException ''refused''"]]
    registry_outcome_mapping [OF registry_outcome_example [of "Response 404 None"]]
    registry_outcome_mapping [OF registry_outcome_example [of "Response 401 None"]]
    registry_outcome_mapping [OF registry_outcome_example [of "Response 503 None"]]
    registry_outcome_mapping [OF registry_outcome_example [of "Response 200 None"]]
    registry_outcome_mapping [OF registry_outcome_example [of "UndecodedResponse 404 ''too deep''"]]
  by (simp add: clean_example str_int_503 response_status_def)

section \<open>Carrier validation: the decoded body\<close>

lemma validate_InrD:
  assumes "validate_mc_number env mc = (Inr r, tr)"
  shows "\<exists>body. registry_body env mc = Some body
           \<and> extract_carrier (repr env) (clean mc) body = Inr r"
proof -
  from assms obtain key where k: "FMCSA_API_KEY env = Some key" "key \<noteq> []"
    by (cases "FMCSA_API_KEY env") (auto simp: validate_mc_number_def split: if_splits)
  from assms k have m: "mc \<noteq> []" "isdigit (clean mc)"
    by (auto simp: validate_mc_number_def Let_def split: if_splits)
  have o: "registry_outcome env mc = Some (requests_get env (request_url key (clean mc)))"
    using k m by (simp add: registry_outcome_def)
  have u: "handle_response rp c code (Inl msg) \<noteq> Inr r" for rp c code msg
    by (simp add: handle_response_def raise_http_def)
  from assms obtain code body where
    r: "requests_get env (request_url key (clean mc)) = Response code body"
    unfolding validate_request [OF k m]
    by (cases "requests_get env (request_url key (clean mc))")
       (auto simp: raise_http_def catch_all_def u split: sum.splits py_exception.splits)
  from assms have h: "catch_all (handle_response (repr env) (clean mc) code (Inr body),
      [HttpGet (request_url key (clean mc))]) = (Inr r, tr)"
    unfolding validate_request [OF k m] r by simp
  then have c: "code = 200"
    by (auto simp: handle_response_def split: if_splits)
  with h obtain b where b: "body = Some b"
    by (cases body) (simp_all add: handle_response_def)
  from h c b have "extract_carrier (repr env) (clean mc) b = Inr r"
    by (cases "extract_carrier (repr env) (clean mc) b")
       (auto simp: handle_response_def catch_all_def split: py_exception.splits)
  moreover have "registry_body env mc = Some b"
    by (simp add: registry_body_def o r c b)
  ultimately show ?thesis by blast
qed

lemma registry_body_example:
  "registry_body (registry_answering (Response 200 (Some body))) ''MC-123456'' = Some body"
  by (simp add: registry_body_def registry_outcome_example)

text \<open>
  C1, as stated, fails: a body whose \<open>content\<close> is a non-empty object without a
  \<open>carrier\<close> key, or with an empty \<open>carrier\<close> object, is answered with status 502 and
  not with 404.
\<close>

theorem missing_carrier_section_counterexample:
  "fst (validate_mc_number
          (registry_answering
             (Response 200 (Some (JObj [(''content'', JObj [(''retrievalDate'', JStr ''2024-05-01'')])]))))
          ''MC-123456'') =
     Inl \<lparr>status_code = 502, detail = ''Incomplete carrier data received from FMCSA API''\<rparr>
   \<and> fst (validate_mc_number
          (registry_answering
             (Response 200 (Some (JObj [(''content'', JObj [(''carrier'', JObj [])])]))))
          ''MC-123456'') =
     Inl \<lparr>status_code = 502, detail = ''Incomplete carrier data received from FMCSA API''\<rparr>"
  by (simp add: validate_body [OF registry_body_example] extract_carrier_def dict_get_def)

text \<open>
  C1, amended. The presence check of the handler is on \<open>content\<close> alone. For every
  answer with status 200 whose body decodes to an object: when \<open>content\<close> is absent
  or a value that Python counts as false (null, an empty object), the handler raises 404
  with the normalized identifier in the message; when \<open>content\<close> is a non-empty object
  whose \<open>carrier\<close> is absent or an empty object, it raises 502 (incomplete data).
\<close>

theorem not_found_without_content:
  assumes "registry_body env mc = Some (JObj b)"
  shows "((case map_of b ''content'' of None \<Rightarrow> True | Some v \<Rightarrow> \<not> truthy v) \<longrightarrow>
            fst (validate_mc_number env mc) =
              Inl \<lparr>status_code = 404,
                   detail = ''No carrier data found for MC number: '' @ clean mc\<rparr>)
       \<and> (\<forall>c. map_of b ''content'' = Some (JObj c) \<and> c \<noteq> []
               \<and> (map_of c ''carrier'' = None \<or> map_of c ''carrier'' = Some (JObj [])) \<longrightarrow>
            fst (validate_mc_number env mc) =
              Inl \<lparr>status_code = 502,
                   detail = ''Incomplete carrier data received from FMCSA API''\<rparr>)"
proof (intro conjI allI impI)
  assume "case map_of b ''content'' of None \<Rightarrow> True | Some v \<Rightarrow> \<not> truthy v"
  then have "\<not> truthy (dict_get b ''content'' (JObj []))"
    by (simp add: dict_get_def split: option.splits)
  then show "fst (validate_mc_number env mc) =
      Inl \<lparr>status_code = 404, detail = ''No carrier data found for MC number: '' @ clean mc\<rparr>"
    by (simp add: validate_body [OF assms] extract_carrier_no_content)
next
  fix c
  assume a: "map_of b ''content'' = Some (JObj c) \<and> c \<noteq> []
     \<and> (map_of c ''carrier'' = None \<or> map_of c ''carrier'' = Some (JObj []))"
  then have "dict_get b ''content'' (JObj []) = JObj c" "dict_get c ''carrier'' (JObj []) = JObj []"
    by (auto simp: dict_get_def)
  with a show "fst (validate_mc_number env mc) =
      Inl \<lparr>status_code = 502, detail = ''Incomplete carrier data received from FMCSA API''\<rparr>"
    by (simp add: validate_body [OF assms] extract_carrier_def dict_get_def)
qed

theorem not_found_without_content_witness:
  "fst (validate_mc_number
          (registry_answering (Response 200 (Some (JObj [(''content'', JNull)]))))
          ''MC-123456'') =
     Inl \<lparr>status_code = 404, detail = ''No carrier data found for MC number: 123456''\<rparr>
   \<and> fst (validate_mc_number
          (registry_answering (Response 200 (Some (JObj []))))
          ''MC-123456'') =
     Inl \<lparr>status_code = 404, detail = ''No carrier data found for MC number: 123456''\<rparr>
   \<and> fst (validate_mc_number
          (registry_answering
             (Response 200 (Some (JObj [(''content'', JObj [(''carrier'', JObj [])])]))))
          ''MC-123456'') =
     Inl \<lparr>status_code = 502, detail = ''Incomplete carrier data received from FMCSA API''\<rparr>"
  using not_found_without_content [OF registry_body_example [of "JObj [(''content'', JNull)]"]]
    not_found_without_content [OF registry_body_example [of "JObj []"]]
    not_found_without_content
      [OF registry_body_example [of "JObj [(''content'', JObj [(''carrier'', JObj [])])]"]]
  by (simp add: clean_example)

section \<open>Carrier validation: the derived fields\<close>

lemma validate_success:
  assumes "validate_mc_number env mc = (Inr r, tr)"
  shows "\<exists>body carrier. registry_body env mc = Some body \<and> content_carrier body = Some carrier
           \<and> truthy (dict_get carrier ''legalName'' (dict_get carrier ''dbaName'' (JStr [])))
           \<and> truthy (dict_get carrier ''dotNumber'' JNull)
           \<and> r = carrier_response (repr env) (clean mc)
                   (dict_get carrier ''legalName'' (dict_get carrier ''dbaName'' (JStr [])))
                   (dict_get carrier ''dotNumber'' JNull)
                   (dict_get carrier ''allowedToOperate'' JNull)
                   (dict_get carrier ''oosDate'' JNull)"
proof -
  from validate_InrD [OF assms] obtain body where
    b: "registry_body env mc = Some body" and e: "extract_carrier (repr env) (clean mc) body = Inr r"
    by blast
  from extract_carrier_InrD [OF e] obtain carrier where c: "content_carrier body = Some carrier"
    by blast
  from e have "truthy (dict_get carrier ''legalName'' (dict_get carrier ''dbaName'' (JStr [])))
      \<and> truthy (dict_get carrier ''dotNumber'' JNull)
      \<and> r = carrier_response (repr env) (clean mc)
                   (dict_get carrier ''legalName'' (dict_get carrier ''dbaName'' (JStr [])))
                   (dict_get carrier ''dotNumber'' JNull)
                   (dict_get carrier ''allowedToOperate'' JNull)
                   (dict_get carrier ''oosDate'' JNull)"
    unfolding extract_carrier_section [OF c]
    by (auto simp: raise_http_def split: if_splits)
  with b c show ?thesis by blast
qed

lemma carrier_field_response:
  "carrier_field (carrier_response rp c name dot allowed oos) ''status'' =
     Some (JStr (if allowed = JStr ''Y'' then ''Active'' else ''Inactive''))"
  "carrier_field (carrier_response rp c name dot allowed oos) ''status_reason'' =
     Some (if truthy oos then JStr ''Out of Service''
           else if allowed \<noteq> JStr ''Y'' then JStr ''Not Authorized to Operate''
           else JNull)"
  "carrier_field (carrier_response rp c name dot allowed oos) ''carrier_name'' = Some name"
  "carrier_field (carrier_response rp c name dot allowed oos) ''mc_number'' = Some (JStr c)"
  by (simp_all add: carrier_field_def carrier_response_def Let_def)

lemma validate_example:
  assumes "truthy (dict_get carrier ''legalName'' (dict_get carrier ''dbaName'' (JStr [])))"
    and "truthy (dict_get carrier ''dotNumber'' JNull)"
  shows "validate_mc_number (registry_answering (Response 200 (Some (body_with_carrier carrier))))
           ''MC-123456'' =
         (Inr (carrier_response (\<lambda>j. []) ''123456''
                 (dict_get carrier ''legalName'' (dict_get carrier ''dbaName'' (JStr [])))
                 (dict_get carrier ''dotNumber'' JNull)
                 (dict_get carrier ''allowedToOperate'' JNull)
                 (dict_get carrier ''oosDate'' JNull)),
          [HttpGet ''https://mobile.fmcsa.dot.gov/qc/services/carriers/123456?webKey=key''])"
proof -
  have c: "content_carrier (body_with_carrier carrier) = Some carrier"
    by (simp add: content_carrier_def body_with_carrier_def)
  have e: "repr (registry_answering out) = (\<lambda>j. [])" "FMCSA_API_KEY (registry_answering out) = Some ''key''"
    for out
    by (simp_all add: registry_answering_def)
  have u: "request_url ''key'' ''123456'' =
      ''https://mobile.fmcsa.dot.gov/qc/services/carriers/123456?webKey=key''"
    by (simp add: request_url_def FMCSA_BASE_URL_def)
  show ?thesis
    unfolding validate_body [OF registry_body_example] extract_carrier_section [OF c]
    using assms by (simp add: clean_example e u)
qed

text \<open>
  C5. Every successful validation rests on a carrier section of the registry's answer,
  and its fields are derived from that section as follows. The status is \<open>Active\<close>
  exactly when \<open>allowedToOperate\<close> is the string \<open>Y\<close>, and \<open>Inactive\<close> otherwise. An
  out-of-service date is present when the value under \<open>oosDate\<close> counts as true in Python
  (null and the empty string are no date). The reason is \<open>Out of Service\<close> whenever such
  a date is present, whatever the authorization; it is \<open>Not Authorized to Operate\<close>
  exactly when the carrier is not authorized and no such date is present; and it is null
  when the carrier is authorized and no such date is present.
\<close>

theorem status_and_status_reason:
  assumes "validate_mc_number env mc = (Inr r, tr)"
  shows "(\<exists>body carrier. registry_body env mc = Some body \<and> content_carrier body = Some carrier)
   \<and> (\<forall>body carrier.
        registry_body env mc = Some body \<and> content_carrier body = Some carrier \<longrightarrow>
        (carrier_field r ''status'' = Some (JStr ''Active'')
          \<longleftrightarrow> dict_get carrier ''allowedToOperate'' JNull = JStr ''Y'')
      \<and> (carrier_field r ''status'' = Some (JStr ''Inactive'')
          \<longleftrightarrow> dict_get carrier ''allowedToOperate'' JNull \<noteq> JStr ''Y'')
      \<and> (truthy (dict_get carrier ''oosDate'' JNull)
          \<longrightarrow> carrier_field r ''status_reason'' = Some (JStr ''Out of Service''))
      \<and> (carrier_field r ''status_reason'' = Some (JStr ''Not Authorized to Operate'')
          \<longleftrightarrow> dict_get carrier ''allowedToOperate'' JNull \<noteq> JStr ''Y''
              \<and> \<not> truthy (dict_get carrier ''oosDate'' JNull))
      \<and> (dict_get carrier ''allowedToOperate'' JNull = JStr ''Y''
          \<and> \<not> truthy (dict_get carrier ''oosDate'' JNull)
          \<longrightarrow> carrier_field r ''status_reason'' = Some JNull))"
proof -
  from validate_success [OF assms] obtain body carrier where
    b: "registry_body env mc = Some body" "content_carrier body = Some carrier"
    and r: "r = carrier_response (repr env) (clean mc)
                   (dict_get carrier ''legalName'' (dict_get carrier ''dbaName'' (JStr [])))
                   (dict_get carrier ''dotNumber'' JNull)
                   (dict_get carrier ''allowedToOperate'' JNull)
                   (dict_get carrier ''oosDate'' JNull)"
    by blast
  from b have ex: "\<exists>body carrier. registry_body env mc = Some body \<and> content_carrier body = Some carrier"
    by blast
  show ?thesis
    using ex by (auto simp: b r carrier_field_response)
qed

lemma content_carrier_example: "content_carrier (body_with_carrier carrier) = Some carrier"
  by (simp add: content_carrier_def body_with_carrier_def)

theorem status_and_status_reason_witness:
  "(\<exists>r tr. validate_mc_number
       (registry_answering (Response 200 (Some (body_with_carrier
          [(''legalName'', JStr ''ACME FREIGHT''), (''dotNumber'', JInt 42),
           (''allowedToOperate'', JStr ''Y''), (''oosDate'', JNull)]))))
       ''MC-123456'' = (Inr r, tr)
     \<and> carrier_field r ''status'' = Some (JStr ''Active'')
     \<and> carrier_field r ''status_reason'' = Some JNull)
   \<and> (\<exists>r tr. validate_mc_number
       (registry_answering (Response 200 (Some (body_with_carrier
          [(''legalName'', JStr ''ACME FREIGHT''), (''dotNumber'', JInt 42),
           (''allowedToOperate'', JStr ''Y''), (''oosDate'', JStr ''2023-11-02'')]))))
       ''MC-123456'' = (Inr r, tr)
     \<and> carrier_field r ''status'' = Some (JStr ''Active'')
     \<and> carrier_field r ''status_reason'' = Some (JStr ''Out of Service''))
   \<and> (\<exists>r tr. validate_mc_number
       (registry_answering (Response 200 (Some (body_with_carrier
          [(''legalName'', JStr ''ACME FREIGHT''), (''dotNumber'', JInt 42),
           (''allowedToOperate'', JStr ''N'')]))))
       ''MC-123456'' = (Inr r, tr)
     \<and> carrier_field r ''status'' = Some (JStr ''Inactive'')
     \<and> carrier_field r ''status_reason'' = Some (JStr ''Not Authorized to Operate''))"
proof (intro conjI)
  let ?A = "[(''legalName'', JStr ''ACME FREIGHT''), (''dotNumber'', JInt 42),
             (''allowedToOperate'', JStr ''Y''), (''oosDate'', JNull)]"
  obtain r tr where v: "validate_mc_number
      (registry_answering (Response 200 (Some (body_with_carrier ?A)))) ''MC-123456'' = (Inr r, tr)"
    using validate_example [of ?A] by (simp add: dict_get_def)
  from status_and_status_reason [OF v]
  have "carrier_field r ''status'' = Some (JStr ''Active'')
      \<and> carrier_field r ''status_reason'' = Some JNull"
    by (simp add: registry_body_example content_carrier_example dict_get_def)
  with v show "\<exists>r tr. validate_mc_number
      (registry_answering (Response 200 (Some (body_with_carrier ?A)))) ''MC-123456'' = (Inr r, tr)
      \<and> carrier_field r ''status'' = Some (JStr ''Active'')
      \<and> carrier_field r ''status_reason'' = Some JNull"
    by blast
next
  let ?A = "[(''legalName'', JStr ''ACME FREIGHT''), (''dotNumber'', JInt 42),
             (''allowedToOperate'', JStr ''Y''), (''oosDate'', JStr ''2023-11-02'')]"
  obtain r tr where v: "validate_mc_number
      (registry_answering (Response 200 (Some (body_with_carrier ?A)))) ''MC-123456'' = (Inr r, tr)"
    using validate_example [of ?A] by (simp add: dict_get_def)
  from status_and_status_reason [OF v]
  have "carrier_field r ''status'' = Some (JStr ''Active'')
      \<and> carrier_field r ''status_reason'' = Some (JStr ''Out of Service'')"
    by (simp add: registry_body_example content_carrier_example dict_get_def)
  with v show "\<exists>r tr. validate_mc_number
      (registry_answering (Response 200 (Some (body_with_carrier ?A)))) ''MC-123456'' = (Inr r, tr)
      \<and> carrier_field r ''status'' = Some (JStr ''Active'')
      \<and> carrier_field r ''status_reason'' = Some (JStr ''Out of Service'')"
    by blast
next
  let ?A = "[(''legalName'', JStr ''ACME FREIGHT''), (''dotNumber'', JInt 42),
             (''allowedToOperate'', JStr ''N'')]"
  obtain r tr where v: "validate_mc_number
      (registry_answering (Response 200 (Some (body_with_carrier ?A)))) ''MC-123456'' = (Inr r, tr)"
    using validate_example [of ?A] by (simp add: dict_get_def)
  from status_and_status_reason [OF v]
  have "carrier_field r ''status'' = Some (JStr ''Inactive'')
      \<and> carrier_field r ''status_reason'' = Some (JStr ''Not Authorized to Operate'')"
    by (simp add: registry_body_example content_carrier_example dict_get_def)
  with v show "\<exists>r tr. validate_mc_number
      (registry_answering (Response 200 (Some (body_with_carrier ?A)))) ''MC-123456'' = (Inr r, tr)
      \<and> carrier_field r ''status'' = Some (JStr ''Inactive'')
      \<and> carrier_field r ''status_reason'' = Some (JStr ''Not Authorized to Operate'')"
    by blast
qed

section \<open>Carrier validation: the normalized identifier\<close>

text \<open>
  C7. The normalized identifier is the input in upper case, without the substring
  \<open>MC-\<close>, trimmed. For a non-empty input (and a configured credential) it is this value
  that is tested for digits and, when it passes, requested from the registry; the input
  \<open>MC-123456\<close> is normalized to \<open>123456\<close>; and in every successful response the field
  \<open>mc_number\<close> is the normalized identifier.
\<close>

theorem normalized_identifier:
  "(FMCSA_API_KEY env = Some key \<and> key \<noteq> [] \<and> mc \<noteq> [] \<longrightarrow>
      (if isdigit (strip (replace ''MC-'' [] (upper mc)))
       then \<exists>rest. snd (validate_mc_number env mc) =
              HttpGet (FMCSA_BASE_URL @ strip (replace ''MC-'' [] (upper mc)) @ ''?webKey='' @ key) # rest
       else validate_mc_number env mc =
              (Inl \<lparr>status_code = 400,
                    detail = ''Invalid MC number format. Must contain only digits after removing 'MC-' prefix''\<rparr>,
               [])))
   \<and> (validate_mc_number env mc = (Inr r, tr) \<longrightarrow>
        carrier_field r ''mc_number'' = Some (JStr (strip (replace ''MC-'' [] (upper mc)))))
   \<and> strip (replace ''MC-'' [] (upper ''MC-123456'')) = ''123456''"
proof (intro conjI impI)
  assume a: "FMCSA_API_KEY env = Some key \<and> key \<noteq> [] \<and> mc \<noteq> []"
  show "if isdigit (strip (replace ''MC-'' [] (upper mc)))
       then \<exists>rest. snd (validate_mc_number env mc) =
              HttpGet (FMCSA_BASE_URL @ strip (replace ''MC-'' [] (upper mc)) @ ''?webKey='' @ key) # rest
       else validate_mc_number env mc =
              (Inl \<lparr>status_code = 400,
                    detail = ''Invalid MC number format. Must contain only digits after removing 'MC-' prefix''\<rparr>,
               [])"
  proof (cases "isdigit (clean mc)")
    case True
    have "\<exists>rest. snd (catch_all (x, [HttpGet u])) = HttpGet u # rest" for x :: "py_exception + CarrierResponse" and u
      by (auto simp: catch_all_def split: sum.splits py_exception.splits)
    with True a show ?thesis
      by (simp add: validate_request [of env key mc] request_url_def clean_def)
  next
    case False
    with a show ?thesis
      by (simp add: validate_mc_number_def clean_def)
  qed
next
  assume "validate_mc_number env mc = (Inr r, tr)"
  from validate_success [OF this]
  show "carrier_field r ''mc_number'' = Some (JStr (strip (replace ''MC-'' [] (upper mc))))"
    by (auto simp: carrier_field_response clean_def)
next
  show "strip (replace ''MC-'' [] (upper ''MC-123456'')) = ''123456''"
    using clean_example by (simp add: clean_def)
qed

theorem normalized_identifier_witness:
  "(\<exists>rest. snd (validate_mc_number (registry_answering Timeout) '' mc-123456'') =
      HttpGet ''https://mobile.fmcsa.dot.gov/qc/services/carriers/123456?webKey=key'' # rest)
   \<and> (\<exists>rest. snd (validate_mc_number (registry_answering Timeout) [CHR ''1'', CHR ''2'', CHR ''3'', CHR 0xA0]) =
      HttpGet ''https://mobile.fmcsa.dot.gov/qc/services/carriers/123?webKey=key'' # rest)
   \<and> validate_mc_number (registry_answering Timeout) ''12a'' =
       (Inl \<lparr>status_code = 400,
             detail = ''Invalid MC number format. Must contain only digits after removing 'MC-' prefix''\<rparr>,
        [])
   \<and> (\<exists>r tr. validate_mc_number
         (registry_answering (Response 200 (Some (body_with_carrier
            [(''legalName'', JStr ''ACME FREIGHT''), (''dotNumber'', JInt 42)]))))
         ''MC-123456'' = (Inr r, tr)
       \<and> carrier_field r ''mc_number'' = Some (JStr ''123456''))"
proof (intro conjI)
  have n: "strip (replace ''MC-'' [] (upper '' mc-123456'')) = ''123456''"
    by (simp add: upper_def upper_char_def small_letters_def capital_letters_def strip_def isspace_def startswith_def)
  show "\<exists>rest. snd (validate_mc_number (registry_answering Timeout) '' mc-123456'') =
      HttpGet ''https://mobile.fmcsa.dot.gov/qc/services/carriers/123456?webKey=key'' # rest"
    using normalized_identifier [of "registry_answering Timeout" "''key''" "'' mc-123456''"]
    by (simp add: n isdigit_example registry_answering_def FMCSA_BASE_URL_def)
next
  have n: "strip (replace ''MC-'' [] (upper [CHR ''1'', CHR ''2'', CHR ''3'', CHR 0xA0])) = ''123''"
    by (simp add: upper_def upper_char_def small_letters_def capital_letters_def strip_def
        isspace_def startswith_def)
  have d: "isdigit ''123''"
    by (simp add: isdigit_def isdigit_char_def)
  show "\<exists>rest. snd (validate_mc_number (registry_answering Timeout) [CHR ''1'', CHR ''2'', CHR ''3'', CHR 0xA0]) =
      HttpGet ''https://mobile.fmcsa.dot.gov/qc/services/carriers/123?webKey=key'' # rest"
    using normalized_identifier
      [of "registry_answering Timeout" "''key''" "[CHR ''1'', CHR ''2'', CHR ''3'', CHR 0xA0]"]
    by (simp add: n d registry_answering_def FMCSA_BASE_URL_def)
next
  have n: "strip (replace ''MC-'' [] (upper ''12a'')) = ''12A''"
    by (simp add: upper_def upper_char_def small_letters_def capital_letters_def strip_def isspace_def startswith_def)
  show "validate_mc_number (registry_answering Timeout) ''12a'' =
       (Inl \<lparr>status_code = 400,
             detail = ''Invalid MC number format. Must contain only digits after removing 'MC-' prefix''\<rparr>,
        [])"
    using normalized_identifier [of "registry_answering Timeout" "''key''" "''12a''"]
    by (simp add: n isdigit_def isdigit_char_def registry_answering_def)
next
  let ?A = "[(''legalName'', JStr ''ACME FREIGHT''), (''dotNumber'', JInt 42)]"
  obtain r tr where v: "validate_mc_number
      (registry_answering (Response 200 (Some (body_with_carrier ?A)))) ''MC-123456'' = (Inr r, tr)"
    using validate_example [of ?A] by (simp add: dict_get_def)
  have "carrier_field r ''mc_number'' = Some (JStr ''123456'')"
    using v normalized_identifier
      [of "registry_answering (Response 200 (Some (body_with_carrier ?A)))" "''key''" "''MC-123456''" r tr]
    by simp
  with v show "\<exists>r tr. validate_mc_number
      (registry_answering (Response 200 (Some (body_with_carrier ?A)))) ''MC-123456'' = (Inr r, tr)
      \<and> carrier_field r ''mc_number'' = Some (JStr ''123456'')"
    by blast
qed

section \<open>Carrier validation: every occurrence of the prefix text is removed\<close>

lemma startswith_MC_append:
  "startswith (a @ ''MC-'' @ b) ''MC-'' \<longleftrightarrow> a = [] \<or> startswith a ''MC-''"
proof (cases a)
  case Nil
  then show ?thesis by (simp add: startswith_def)
next
  case a: (Cons c cs)
  show ?thesis
  proof (cases cs)
    case Nil
    with a show ?thesis by (auto simp: startswith_def)
  next
    case cs: (Cons d ds)
    show ?thesis
    proof (cases ds)
      case Nil
      with a cs show ?thesis by (auto simp: startswith_def)
    next
      case (Cons e es)
      with a cs show ?thesis by (auto simp: startswith_def)
    qed
  qed
qed

lemma replace_MC_append:
  "replace ''MC-'' [] (a @ ''MC-'' @ b) = replace ''MC-'' [] a @ replace ''MC-'' [] b"
proof (induction a rule: length_induct)
  case (1 a)
  show ?case
  proof (cases a)
    case Nil
    then show ?thesis by (simp add: startswith_def)
  next
    case a: (Cons c cs)
    show ?thesis
    proof (cases "startswith a ''MC-''")
      case True
      then have "a = ''MC-'' @ drop 3 a"
        by (metis append_take_drop_id length_Cons list.size(3) numeral_3_eq_3 startswith_def)
      then obtain a' where a': "a = ''MC-'' @ a'" ..
      have r: "replace ''MC-'' [] (''MC-'' @ x) = replace ''MC-'' [] x" for x
        by (simp add: startswith_def)
      have "length a' < length a"
        by (simp add: a')
      with 1 have "replace ''MC-'' [] (a' @ ''MC-'' @ b) = replace ''MC-'' [] a' @ replace ''MC-'' [] b"
        by blast
      then show ?thesis
        unfolding a' using r [of a'] r [of "a' @ ''MC-'' @ b"] by simp
    next
      case False
      have "a \<noteq> []"
        using a by simp
      with False have n: "\<not> startswith (a @ ''MC-'' @ b) ''MC-''"
        unfolding startswith_MC_append by simp
      have "replace ''MC-'' [] (a @ ''MC-'' @ b) = c # replace ''MC-'' [] (cs @ ''MC-'' @ b)"
        using n a by simp
      also have "replace ''MC-'' [] (cs @ ''MC-'' @ b) = replace ''MC-'' [] cs @ replace ''MC-'' [] b"
        using 1 a by simp
      finally show ?thesis
        using False a by simp
    qed
  qed
qed

lemma upper_append: "upper (a @ b) = upper a @ upper b"
  by (simp add: upper_def)

lemma upper_MC_text: "upper ''MC-'' = ''MC-''" "upper ''mc-'' = ''MC-''"
  by (simp_all add: upper_def upper_char_def small_letters_def capital_letters_def)

lemma clean_inner_example: "clean ''123MC-456'' = ''123456''"
  by (simp add: clean_def upper_def upper_char_def small_letters_def capital_letters_def
      strip_def isspace_def startswith_def)

text \<open>
  C10. The normalization removes the text \<open>MC-\<close> wherever it stands in the upper-cased
  input, not only at the front: what precedes and what follows an occurrence are
  normalized on their own and joined. This holds for an occurrence in the input in
  capitals and, since the input is put in upper case first, in small letters. So
  \<open>123MC-456\<close> and \<open>123mc-456\<close> are normalized to \<open>123456\<close>; \<open>123MC-456\<close> passes the
  digit check and (with a configured credential) is requested from the registry as
  \<open>123456\<close>.
\<close>

theorem every_occurrence_removed:
  "(upper mc = x @ ''MC-'' @ y \<longrightarrow>
      clean mc = strip (replace ''MC-'' [] x @ replace ''MC-'' [] y))
   \<and> clean (a @ ''MC-'' @ b) =
       strip (replace ''MC-'' [] (upper a) @ replace ''MC-'' [] (upper b))
   \<and> clean (a @ ''mc-'' @ b) =
       strip (replace ''MC-'' [] (upper a) @ replace ''MC-'' [] (upper b))
   \<and> clean ''123MC-456'' = ''123456''
   \<and> clean ''123mc-456'' = ''123456''
   \<and> clean '' mc-12 Mc-34 '' = ''12 34''
   \<and> isdigit (clean ''123MC-456'')
   \<and> (FMCSA_API_KEY env = Some key \<and> key \<noteq> [] \<longrightarrow>
        (\<exists>rest. snd (validate_mc_number env ''123MC-456'') =
           HttpGet (FMCSA_BASE_URL @ ''123456'' @ ''?webKey='' @ key) # rest))"
proof (intro conjI impI)
  assume "upper mc = x @ ''MC-'' @ y"
  then show "clean mc = strip (replace ''MC-'' [] x @ replace ''MC-'' [] y)"
    by (simp only: clean_def replace_MC_append)
next
  show "clean (a @ ''MC-'' @ b) =
       strip (replace ''MC-'' [] (upper a) @ replace ''MC-'' [] (upper b))"
    by (simp only: clean_def upper_append upper_MC_text replace_MC_append)
next
  show "clean (a @ ''mc-'' @ b) =
       strip (replace ''MC-'' [] (upper a) @ replace ''MC-'' [] (upper b))"
    by (simp only: clean_def upper_append upper_MC_text replace_MC_append)
next
  show "clean ''123MC-456'' = ''123456''"
    by (rule clean_inner_example)
next
  show "clean ''123mc-456'' = ''123456''"
    by (simp add: clean_def upper_def upper_char_def small_letters_def capital_letters_def
        strip_def isspace_def startswith_def)
next
  show "clean '' mc-12 Mc-34 '' = ''12 34''"
    by (simp add: clean_def upper_def upper_char_def small_letters_def capital_letters_def
        strip_def isspace_def startswith_def)
next
  show "isdigit (clean ''123MC-456'')"
    by (simp add: clean_inner_example isdigit_example)
next
  assume k: "FMCSA_API_KEY env = Some key \<and> key \<noteq> []"
  then show "\<exists>rest. snd (validate_mc_number env ''123MC-456'') =
           HttpGet (FMCSA_BASE_URL @ ''123456'' @ ''?webKey='' @ key) # rest"
    using snd_catch_all [where u = "FMCSA_BASE_URL @ ''123456'' @ ''?webKey='' @ key"]
    by (simp add: validate_request [of env key "''123MC-456''"] clean_inner_example
        isdigit_example request_url_def)
qed

theorem every_occurrence_removed_witness:
  "clean ''12mc-34'' = ''1234''
   \<and> snd (validate_mc_number (registry_answering Timeout) ''123MC-456'') =
     [HttpGet ''https://mobile.fmcsa.dot.gov/qc/services/carriers/123456?webKey=key'']"
proof
  have u: "upper ''12mc-34'' = ''12'' @ ''MC-'' @ ''34''"
    by (simp add: upper_def upper_char_def small_letters_def capital_letters_def)
  have "clean ''12mc-34'' = strip (replace ''MC-'' [] ''12'' @ replace ''MC-'' [] ''34'')"
    using every_occurrence_removed [of "''12mc-34''" "''12''" "''34''"] u by blast
  then show "clean ''12mc-34'' = ''1234''"
    by (simp add: strip_def isspace_def startswith_def)
next
  have "\<exists>rest. snd (validate_mc_number (registry_answering Timeout) ''123MC-456'') =
           HttpGet (FMCSA_BASE_URL @ ''123456'' @ ''?webKey='' @ ''key'') # rest"
    using every_occurrence_removed [of _ _ _ _ _ "registry_answering Timeout" "''key''"]
    by (simp add: registry_answering_def)
  moreover have "registry_outcome (registry_answering Timeout) ''123MC-456'' = Some Timeout"
    by (simp add: registry_outcome_def registry_answering_def clean_inner_example isdigit_example)
  ultimately show "snd (validate_mc_number (registry_answering Timeout) ''123MC-456'') =
     [HttpGet ''https://mobile.fmcsa.dot.gov/qc/services/carriers/123456?webKey=key'']"
    by (simp add: validate_outcome registry_answering_def request_url_def FMCSA_BASE_URL_def
        clean_inner_example)
qed

section \<open>Carrier validation: the carrier name and the DOT number\<close>

text \<open>
  C9. For every carrier section of the registry's answer, the carrier name is the value
  under \<open>legalName\<close> when that key is present, else the value under \<open>dbaName\<close>, else the
  empty string; the DOT number is the value under \<open>dotNumber\<close>. When the name or the DOT
  number is absent or empty (any value that Python counts as false), the handler raises
  502; otherwise it succeeds with that name. In particular a \<open>legalName\<close> that is present
  but empty is not replaced by \<open>dbaName\<close>: the handler raises 502.
\<close>

theorem carrier_name_and_dot_number:
  assumes "registry_body env mc = Some body" and "content_carrier body = Some carrier"
  shows "(let name = (case map_of carrier ''legalName'' of
                        Some v \<Rightarrow> v
                      | None \<Rightarrow> (case map_of carrier ''dbaName'' of Some v \<Rightarrow> v | None \<Rightarrow> JStr []));
              no_dot = (case map_of carrier ''dotNumber'' of None \<Rightarrow> True | Some d \<Rightarrow> \<not> truthy d)
          in if \<not> truthy name \<or> no_dot
             then fst (validate_mc_number env mc) =
                    Inl \<lparr>status_code = 502,
                         detail = ''Incomplete carrier data received from FMCSA API''\<rparr>
             else \<exists>r. fst (validate_mc_number env mc) = Inr r
                    \<and> carrier_field r ''carrier_name'' = Some name)
       \<and> (map_of carrier ''legalName'' = Some (JStr []) \<longrightarrow>
            fst (validate_mc_number env mc) =
              Inl \<lparr>status_code = 502,
                   detail = ''Incomplete carrier data received from FMCSA API''\<rparr>)"
proof -
  have n: "dict_get carrier ''legalName'' (dict_get carrier ''dbaName'' (JStr [])) =
      (case map_of carrier ''legalName'' of
         Some v \<Rightarrow> v
       | None \<Rightarrow> (case map_of carrier ''dbaName'' of Some v \<Rightarrow> v | None \<Rightarrow> JStr []))"
    by (simp add: dict_get_def split: option.splits)
  have d: "(\<not> truthy (dict_get carrier ''dotNumber'' JNull)) =
      (case map_of carrier ''dotNumber'' of None \<Rightarrow> True | Some d \<Rightarrow> \<not> truthy d)"
    by (simp add: dict_get_def split: option.splits)
  have v: "fst (validate_mc_number env mc) =
      (if \<not> truthy (dict_get carrier ''legalName'' (dict_get carrier ''dbaName'' (JStr [])))
          \<or> \<not> truthy (dict_get carrier ''dotNumber'' JNull)
       then Inl \<lparr>status_code = 502, detail = ''Incomplete carrier data received from FMCSA API''\<rparr>
       else Inr (carrier_response (repr env) (clean mc)
                   (dict_get carrier ''legalName'' (dict_get carrier ''dbaName'' (JStr [])))
                   (dict_get carrier ''dotNumber'' JNull)
                   (dict_get carrier ''allowedToOperate'' JNull)
                   (dict_get carrier ''oosDate'' JNull)))"
    by (simp add: validate_body [OF assms(1)] extract_carrier_section [OF assms(2)])
  show ?thesis
    unfolding v Let_def n [symmetric] d [symmetric]
    by (auto simp: carrier_field_response dict_get_def)
qed

theorem carrier_name_and_dot_number_witness:
  "(\<exists>r. fst (validate_mc_number
       (registry_answering (Response 200 (Some (body_with_carrier
          [(''legalName'', JStr ''ACME FREIGHT''), (''dbaName'', JStr ''ACME''),
           (''dotNumber'', JInt 42)]))))
       ''MC-123456'') = Inr r
     \<and> carrier_field r ''carrier_name'' = Some (JStr ''ACME FREIGHT''))
   \<and> (\<exists>r. fst (validate_mc_number
       (registry_answering (Response 200 (Some (body_with_carrier
          [(''dbaName'', JStr ''ACME''), (''dotNumber'', JInt 42)]))))
       ''MC-123456'') = Inr r
     \<and> carrier_field r ''carrier_name'' = Some (JStr ''ACME''))
   \<and> fst (validate_mc_number
       (registry_answering (Response 200 (Some (body_with_carrier
          [(''legalName'', JStr []), (''dbaName'', JStr ''ACME''), (''dotNumber'', JInt 42)]))))
       ''MC-123456'') =
     Inl \<lparr>status_code = 502, detail = ''Incomplete carrier data received from FMCSA API''\<rparr>
   \<and> fst (validate_mc_number
       (registry_answering (Response 200 (Some (body_with_carrier
          [(''legalName'', JStr ''ACME FREIGHT'')]))))
       ''MC-123456'') =
     Inl \<lparr>status_code = 502, detail = ''Incomplete carrier data received from FMCSA API''\<rparr>"
  using carrier_name_and_dot_number [OF registry_body_example content_carrier_example,
      of "[(''legalName'', JStr ''ACME FREIGHT''), (''dbaName'', JStr ''ACME''), (''dotNumber'', JInt 42)]"]
    carrier_name_and_dot_number [OF registry_body_example content_carrier_example,
      of "[(''dbaName'', JStr ''ACME''), (''dotNumber'', JInt 42)]"]
    carrier_name_and_dot_number [OF registry_body_example content_carrier_example,
      of "[(''legalName'', JStr []), (''dbaName'', JStr ''ACME''), (''dotNumber'', JInt 42)]"]
    carrier_name_and_dot_number [OF registry_body_example content_carrier_example,
      of "[(''legalName'', JStr ''ACME FREIGHT'')]"]
  by (simp add: Let_def)

section \<open>Load lookup: the order of the checks\<close>

lemma get_load_details_read:
  assumes "csv_exists env" and "read_csv env = DataFrame cols rows"
  shows "get_load_details env refnum =
           catch_all (find_load env cols rows refnum, [PathExists, ReadCsv])"
  using assms by (simp add: get_load_details_def)

text \<open>
  C2, as stated, fails: with the dataset file missing, a reference number that does not
  start with \<open>LOAD\<close> is answered with status 503, after the file has been looked for;
  with an empty file likewise, after the attempt to read it.
\<close>

theorem format_check_before_read_counterexample:
  "get_load_details (dataset_in_state False EmptyDataError) ''ABC123'' =
     (Inl \<lparr>status_code = 503, detail = ''Load data file not available''\<rparr>, [PathExists])
   \<and> get_load_details (dataset_in_state True EmptyDataError) ''ABC123'' =
     (Inl \<lparr>status_code = 503, detail = ''Load data file is empty''\<rparr>, [PathExists, ReadCsv])"
  by (simp add: get_load_details_def dataset_in_state_def)

text \<open>
  C2, amended. The handler looks for the dataset file and reads it before it examines the
  reference number. For every reference number that does not start with \<open>LOAD\<close>: when
  the file exists and is read into a data frame, the handler raises 400, after both
  accesses to the file; when the file is missing, empty or malformed it raises 503, and
  when reading fails otherwise it raises the generic 500.
\<close>

theorem format_check_after_read:
  assumes "\<not> startswith refnum ''LOAD''"
  shows "get_load_details env refnum =
     (if \<not> csv_exists env then
        (Inl \<lparr>status_code = 503, detail = ''Load data file not available''\<rparr>, [PathExists])
      else
        (case read_csv env of
           EmptyDataError \<Rightarrow>
             (Inl \<lparr>status_code = 503, detail = ''Load data file is empty''\<rparr>,
              [PathExists, ReadCsv])
         | ParserError \<Rightarrow>
             (Inl \<lparr>status_code = 503, detail = ''Error parsing load data file''\<rparr>,
              [PathExists, ReadCsv])
         | ReadFailure msg \<Rightarrow>
             (Inl \<lparr>status_code = 500,
                   detail = ''An unexpected error occurred while processing your request''\<rparr>,
              [PathExists, ReadCsv, Print (''Unexpected error: '' @ msg)])
         | DataFrame cols rows \<Rightarrow>
             (Inl \<lparr>status_code = 400,
                   detail = ''Invalid reference number format. Must start with 'LOAD'' @ [CHR 0x27]\<rparr>,
              [PathExists, ReadCsv])))"
  using assms
  by (simp add: get_load_details_def find_load_def split: read_outcome.splits)

theorem format_check_after_read_witness:
  "get_load_details
     (dataset_in_state True (DataFrame sample_columns [sample_row ''LOAD001'' (CInt 1500)]))
     ''ABC123'' =
     (Inl \<lparr>status_code = 400,
           detail = ''Invalid reference number format. Must start with 'LOAD'' @ [CHR 0x27]\<rparr>,
      [PathExists, ReadCsv])
   \<and> get_load_details (dataset_in_state False ParserError) ''load001'' =
     (Inl \<lparr>status_code = 503, detail = ''Load data file not available''\<rparr>, [PathExists])"
  using format_check_after_read
      [of "''ABC123''"
          "dataset_in_state True (DataFrame sample_columns [sample_row ''LOAD001'' (CInt 1500)])"]
    format_check_after_read [of "''load001''" "dataset_in_state False ParserError"]
  by (simp add: startswith_def dataset_in_state_def)

section \<open>Load lookup: how a failure is expressed\<close>

lemma catch_all_InrD:
  assumes "catch_all (x, t) = (Inr r, tr)"
  shows "x = Inr r \<and> tr = t"
  using assms by (auto simp: catch_all_def split: sum.splits py_exception.splits)

lemma build_response_InrD:
  assumes "build_response env d = Inr r"
  shows "LoadResponse.success r \<and> LoadResponse.data r \<noteq> None \<and> LoadResponse.error r = None"
  using assms
  by (auto simp: build_response_def raise_http_def split: if_splits sum.splits float_result.splits)

lemma find_load_InrD:
  assumes "find_load env cols rows refnum = Inr r"
  shows "LoadResponse.success r \<and> LoadResponse.data r \<noteq> None \<and> LoadResponse.error r = None"
  using assms
  by (auto simp: find_load_def raise_http_def split: if_splits list.splits
      dest: build_response_InrD)

lemma get_load_details_InrD:
  assumes "get_load_details env refnum = (Inr r, tr)"
  shows "\<exists>cols rows. csv_exists env \<and> read_csv env = DataFrame cols rows
           \<and> find_load env cols rows refnum = Inr r"
proof -
  from assms have e: "csv_exists env"
    by (auto simp: get_load_details_def split: if_splits)
  from assms e obtain cols rows where d: "read_csv env = DataFrame cols rows"
    by (cases "read_csv env") (simp_all add: get_load_details_def)
  from assms have "find_load env cols rows refnum = Inr r"
    unfolding get_load_details_read [OF e d] by (auto dest: catch_all_InrD)
  with e d show ?thesis by blast
qed

text \<open>
  C3, as stated, fails: on no input does \<open>get_load_details\<close> return a \<open>LoadResponse\<close>
  with \<open>success\<close> false and \<open>error\<close> populated.
\<close>

theorem failure_in_body_counterexample:
  "\<not> (\<exists>(env :: 'f load_env) refnum r tr. get_load_details env refnum = (Inr r, tr)
          \<and> \<not> LoadResponse.success r \<and> LoadResponse.error r \<noteq> None)"
proof
  assume "\<exists>(env :: 'f load_env) refnum r tr. get_load_details env refnum = (Inr r, tr)
          \<and> \<not> LoadResponse.success r \<and> LoadResponse.error r \<noteq> None"
  then obtain env :: "'f load_env" and refnum r tr where
    g: "get_load_details env refnum = (Inr r, tr)" and n: "\<not> LoadResponse.success r"
    by blast
  from get_load_details_InrD [OF g] find_load_InrD have "LoadResponse.success r"
    by blast
  with n show False by simp
qed

text \<open>
  C3, amended. Every failure of the load lookup leaves \<open>get_load_details\<close> as an
  \<open>HTTPException\<close> with a status and a detail; whenever the handler returns a
  \<open>LoadResponse\<close>, its \<open>success\<close> is true, its \<open>data\<close> is populated and its \<open>error\<close>
  is null.
\<close>

theorem load_response_only_on_success:
  assumes "get_load_details env refnum = (Inr r, tr)"
  shows "LoadResponse.success r \<and> LoadResponse.data r \<noteq> None \<and> LoadResponse.error r = None"
  using get_load_details_InrD [OF assms] find_load_InrD by blast

lemma sample_lookup:
  "get_load_details
     (dataset_in_state True (DataFrame sample_columns (sample_row ''LOAD001'' (CInt 1500) # others)))
     ''LOAD001'' =
   (Inr \<lparr>LoadResponse.success = True,
         LoadResponse.data =
           Some \<lparr>reference_number = ''LOAD001'', origin = ''Dallas'', destination = ''Denver'',
                 equipment_type = ''Flatbed'', rate = 1500, commodity = ''Steel''\<rparr>,
         LoadResponse.error = None\<rparr>,
    [PathExists, ReadCsv])"
  by (simp add: get_load_details_def dataset_in_state_def find_load_def startswith_def
      sample_columns_def sample_row_def matching_rows_def to_dict_def build_response_def
      missing_fields_def required_fields_def getitem_def cell_float_def int_float_def
      cell_str_def)

theorem load_response_only_on_success_witness:
  "\<exists>r tr. get_load_details
       (dataset_in_state True (DataFrame sample_columns [sample_row ''LOAD001'' (CInt 1500)]))
       ''LOAD001'' = (Inr r, tr)
     \<and> LoadResponse.success r \<and> LoadResponse.data r \<noteq> None \<and> LoadResponse.error r = None"
  using load_response_only_on_success [OF sample_lookup [of "[]"]] sample_lookup [of "[]"]
  by blast

section \<open>Load lookup: an incomplete record\<close>

lemma to_dict_in_columns:
  assumes "to_dict cols row k = Some c"
  shows "k \<in> set cols"
  using assms unfolding to_dict_def
  by (auto dest!: map_of_SomeD set_zip_leftD)

lemma matching_rows_first:
  assumes "\<forall>r \<in> set pre. to_dict cols r ''reference_number'' \<noteq> Some (CStr refnum)"
    and "to_dict cols row ''reference_number'' = Some (CStr refnum)"
  shows "matching_rows cols (pre @ row # post) refnum = row # matching_rows cols post refnum"
  using assms by (simp add: matching_rows_def)

lemma missing_fields_eq:
  "missing_fields d = filter (\<lambda>f. d f = None \<or> d f = Some CNaN) required_fields"
  unfolding missing_fields_def
  by (rule filter_cong) (auto split: option.splits)

text \<open>
  C8, as stated, fails. When two rows carry the queried reference number, only the first
  is examined: a complete first row gives a successful response although the second one
  lacks its rate. And a row whose reference number does not start with \<open>LOAD\<close> is never
  reached: the query is refused with status 400.
\<close>

theorem incomplete_record_counterexample:
  "fst (get_load_details
          (dataset_in_state True
             (DataFrame sample_columns [sample_row ''LOAD001'' (CInt 1500), sample_row ''LOAD001'' CNaN]))
          ''LOAD001'') =
     Inr \<lparr>LoadResponse.success = True,
          LoadResponse.data =
            Some \<lparr>reference_number = ''LOAD001'', origin = ''Dallas'', destination = ''Denver'',
                  equipment_type = ''Flatbed'', rate = 1500, commodity = ''Steel''\<rparr>,
          LoadResponse.error = None\<rparr>
   \<and> fst (get_load_details
          (dataset_in_state True (DataFrame sample_columns [sample_row ''TRK77'' CNaN]))
          ''TRK77'') =
     Inl \<lparr>status_code = 400,
          detail = ''Invalid reference number format. Must start with 'LOAD'' @ [CHR 0x27]\<rparr>"
proof
  show "fst (get_load_details
          (dataset_in_state True
             (DataFrame sample_columns [sample_row ''LOAD001'' (CInt 1500), sample_row ''LOAD001'' CNaN]))
          ''LOAD001'') =
     Inr \<lparr>LoadResponse.success = True,
          LoadResponse.data =
            Some \<lparr>reference_number = ''LOAD001'', origin = ''Dallas'', destination = ''Denver'',
                  equipment_type = ''Flatbed'', rate = 1500, commodity = ''Steel''\<rparr>,
          LoadResponse.error = None\<rparr>"
    by (simp add: sample_lookup)
next
  have e: "csv_exists (dataset_in_state True d)" "read_csv (dataset_in_state True d) = d" for d
    by (simp_all add: dataset_in_state_def)
  have "\<not> startswith ''TRK77'' ''LOAD''"
    by (simp add: startswith_def)
  then show "fst (get_load_details
          (dataset_in_state True (DataFrame sample_columns [sample_row ''TRK77'' CNaN]))
          ''TRK77'') =
     Inl \<lparr>status_code = 400,
          detail = ''Invalid reference number format. Must start with 'LOAD'' @ [CHR 0x27]\<rparr>"
    by (simp add: get_load_details_read [OF e] find_load_def)
qed

text \<open>
  C8, amended. Let the dataset be read, and let the reference number start with \<open>LOAD\<close>.
  When the first row that carries the reference number has any of the six required fields
  absent or NaN, the handler raises 500 (never 404) and its message lists exactly the
  missing fields, in the order of the required fields; in particular a missing or NaN
  \<open>rate\<close> is among the fields listed.
\<close>

theorem incomplete_first_match:
  assumes "csv_exists env" and "read_csv env = DataFrame cols (pre @ row # post)"
    and "startswith refnum ''LOAD''"
    and "\<forall>r \<in> set pre. to_dict cols r ''reference_number'' \<noteq> Some (CStr refnum)"
    and "to_dict cols row ''reference_number'' = Some (CStr refnum)"
    and "\<exists>f \<in> set required_fields. to_dict cols row f = None \<or> to_dict cols row f = Some CNaN"
  shows "fst (get_load_details env refnum) =
           Inl \<lparr>status_code = 500,
                detail = ''Missing required fields in load data: ''
                  @ join '', ''
                      (filter (\<lambda>f. to_dict cols row f = None \<or> to_dict cols row f = Some CNaN)
                         [''reference_number'', ''origin'', ''destination'', ''equipment_type'',
                          ''rate'', ''commodity''])\<rparr>
       \<and> (to_dict cols row ''rate'' = None \<or> to_dict cols row ''rate'' = Some CNaN \<longrightarrow>
            ''rate'' \<in> set (filter (\<lambda>f. to_dict cols row f = None \<or> to_dict cols row f = Some CNaN)
                         [''reference_number'', ''origin'', ''destination'', ''equipment_type'',
                          ''rate'', ''commodity'']))"
proof
  have c: "''reference_number'' \<in> set cols"
    using assms(5) by (rule to_dict_in_columns)
  have m: "missing_fields (to_dict cols row) \<noteq> []"
    using assms(6) unfolding missing_fields_eq by (simp add: filter_empty_conv)
  have "find_load env cols (pre @ row # post) refnum =
      raise_http 500 (''Missing required fields in load data: ''
                      @ join '', '' (missing_fields (to_dict cols row)))"
    using assms(3) c m
    by (simp add: find_load_def matching_rows_first [OF assms(4,5)] build_response_def)
  then show "fst (get_load_details env refnum) =
           Inl \<lparr>status_code = 500,
                detail = ''Missing required fields in load data: ''
                  @ join '', ''
                      (filter (\<lambda>f. to_dict cols row f = None \<or> to_dict cols row f = Some CNaN)
                         [''reference_number'', ''origin'', ''destination'', ''equipment_type'',
                          ''rate'', ''commodity''])\<rparr>"
    by (simp add: get_load_details_read [OF assms(1,2)] missing_fields_eq required_fields_def)
next
  show "to_dict cols row ''rate'' = None \<or> to_dict cols row ''rate'' = Some CNaN \<longrightarrow>
            ''rate'' \<in> set (filter (\<lambda>f. to_dict cols row f = None \<or> to_dict cols row f = Some CNaN)
                         [''reference_number'', ''origin'', ''destination'', ''equipment_type'',
                          ''rate'', ''commodity''])"
    by simp
qed

theorem incomplete_first_match_witness:
  "fst (get_load_details
          (dataset_in_state True
             (DataFrame sample_columns
                [sample_row ''LOAD001'' (CInt 1500), sample_row ''LOAD002'' CNaN,
                 sample_row ''LOAD002'' (CInt 900)]))
          ''LOAD002'') =
     Inl \<lparr>status_code = 500, detail = ''Missing required fields in load data: rate''\<rparr>"
proof -
  let ?env = "dataset_in_state True
             (DataFrame sample_columns
                [sample_row ''LOAD001'' (CInt 1500), sample_row ''LOAD002'' CNaN,
                 sample_row ''LOAD002'' (CInt 900)])"
  have 1: "csv_exists ?env"
    by (simp add: dataset_in_state_def)
  have 2: "read_csv ?env = DataFrame sample_columns
      ([sample_row ''LOAD001'' (CInt 1500)] @ sample_row ''LOAD002'' CNaN # [sample_row ''LOAD002'' (CInt 900)])"
    by (simp add: dataset_in_state_def)
  have 3: "startswith ''LOAD002'' ''LOAD''"
    by (simp add: startswith_def)
  have 4: "\<forall>r \<in> set [sample_row ''LOAD001'' (CInt 1500)].
      to_dict sample_columns r ''reference_number'' \<noteq> Some (CStr ''LOAD002'')"
    by (simp add: to_dict_def sample_columns_def sample_row_def)
  have 5: "to_dict sample_columns (sample_row ''LOAD002'' CNaN) ''reference_number'' = Some (CStr ''LOAD002'')"
    by (simp add: to_dict_def sample_columns_def sample_row_def)
  have 6: "\<exists>f \<in> set required_fields. to_dict sample_columns (sample_row ''LOAD002'' CNaN) f = None
      \<or> to_dict sample_columns (sample_row ''LOAD002'' CNaN) f = Some CNaN"
    by (simp add: to_dict_def sample_columns_def sample_row_def required_fields_def)
  show ?thesis
    using incomplete_first_match [OF 1 2 3 4 5 6]
    by (simp add: to_dict_def sample_columns_def sample_row_def)
qed

end
